theory Spec2Isabelle
  imports Main
begin

section \<open>String primitives of the host language\<close>

text \<open>
  The hooks of \<^verbatim>\<open>packages/react-form-validity/index.ts\<close> address controls by
  strings and cut them with \<^verbatim>\<open>lastIndexOf\<close> and \<^verbatim>\<open>slice\<close>. Both are written
  out here with the results the language gives outside the comfortable range:
  \<^verbatim>\<open>lastIndexOf\<close> answers \<open>-1\<close> when the character does not occur, and
  \<^verbatim>\<open>slice\<close> counts a negative index from the end and clamps every index to the
  string. A string is a list of characters.
\<close>

fun lastIndexOf :: "string \<Rightarrow> char \<Rightarrow> int" where
  "lastIndexOf [] c = - 1"
| "lastIndexOf (x # xs) c =
     (let r = lastIndexOf xs c
      in if 0 \<le> r then r + 1 else if x = c then 0 else - 1)"

definition relative_index :: "nat \<Rightarrow> int \<Rightarrow> nat" where
  "relative_index len i = (if i < 0 then nat (int len + i) else min (nat i) len)"

definition slice :: "string \<Rightarrow> int \<Rightarrow> int \<Rightarrow> string" where
  "slice s b e =
     (let from = relative_index (length s) b;
          to = relative_index (length s) e
      in take (to - from) (drop from s))"

definition slice_from :: "string \<Rightarrow> int \<Rightarrow> string" where
  "slice_from s b = drop (relative_index (length s) b) s"

text \<open>
  Template literals print an array index in decimal.
\<close>

definition digit_char :: "nat \<Rightarrow> char" where
  "digit_char d = ''0123456789'' ! d"

function number_toString :: "nat \<Rightarrow> string" where
  "number_toString n =
     (if n < 10 then [digit_char n]
      else number_toString (n div 10) @ [digit_char (n mod 10)])"
  by pat_completeness auto
termination
  by (relation "measure (\<lambda>n. n)") auto

declare number_toString.simps [simp del]

section \<open>Path resolver\<close>

text \<open>
  \<^verbatim>\<open>getKey\<close> (index.ts, line 160) recovers a field key from a control's name: the
  part after the last dot, the whole name when it has none.
\<close>

definition getKey :: "string \<Rightarrow> string" where
  "getKey name = slice_from name (lastIndexOf name CHR ''.'' + 1)"

text \<open>
  The first statement of \<^verbatim>\<open>getFieldProps\<close> (line 328) builds the name of a field
  from the name of the enclosing fieldset and the field's key. The fieldset's name is
  optional; an absent name and the empty name are both falsy and give the bare key.
\<close>

definition getFieldProps_name :: "string option \<Rightarrow> string \<Rightarrow> string" where
  "getFieldProps_name parent key =
     (case parent of
        None \<Rightarrow> key
      | Some p \<Rightarrow> if p = [] then key else p @ ''.'' @ key)"

section \<open>Touch/submit gate\<close>

text \<open>
  \<^verbatim>\<open>useFormValidity\<close> (lines 105 to 158) keeps, per form, a flag and an object
  used as a set of names: \<^verbatim>\<open>{ submitted: false, touched: {} }\<close>. The record holds
  the flag and the object's own properties.
\<close>

record gate =
  submitted :: bool
  touched :: "string \<rightharpoonup> bool"

definition gate_init :: gate where
  "gate_init = \<lparr>submitted = False, touched = Map.empty\<rparr>"

text \<open>
  \<^verbatim>\<open>touched\<close> is created by the literal \<^verbatim>\<open>{}\<close>, so it inherits from
  \<^verbatim>\<open>Object.prototype\<close>. Reading a name that is no own property walks to the
  prototype, whose properties (the functions below, and the accessor
  \<^verbatim>\<open>__proto__\<close>, which yields the prototype object) are all truthy. Writing
  \<^verbatim>\<open>true\<close> creates an own property, except under the name \<^verbatim>\<open>__proto__\<close>,
  where the inherited setter ignores a value that is no object.
\<close>

definition Object_prototype_keys :: "string list" where
  "Object_prototype_keys =
     [''constructor'', ''__defineGetter__'', ''__defineSetter__'', ''hasOwnProperty'',
      ''__lookupGetter__'', ''__lookupSetter__'', ''isPrototypeOf'',
      ''propertyIsEnumerable'', ''toString'', ''valueOf'', ''__proto__'',
      ''toLocaleString'']"

definition touched_truthy :: "(string \<rightharpoonup> bool) \<Rightarrow> string \<Rightarrow> bool" where
  "touched_truthy m k =
     (case m k of Some b \<Rightarrow> b | None \<Rightarrow> k \<in> set Object_prototype_keys)"

definition touched_assign :: "(string \<rightharpoonup> bool) \<Rightarrow> string \<Rightarrow> (string \<rightharpoonup> bool)" where
  "touched_assign m k = (if k = ''__proto__'' then m else m(k \<mapsto> True))"

text \<open>
  The spec's TouchedSet: the names that have received a blur, which are the own
  properties of the object.
\<close>

definition TouchedSet :: "gate \<Rightarrow> string set" where
  "TouchedSet g = {k. touched g k = Some True}"

text \<open>
  An event's target is a control, known by its \<^verbatim>\<open>name\<close> property (absent on an
  element that has none), or the form itself. What a handler does beyond updating the
  gate is a list of effects, in the order of the calls. The registry and
  \<^verbatim>\<open>shouldSkipValidate\<close> belong to the package \<^verbatim>\<open>form-validity\<close>; the handlers
  only call them, so the registry's answer is a parameter and the answer of
  \<^verbatim>\<open>shouldSkipValidate(submitter)\<close> is a boolean argument. The caller's own
  \<^verbatim>\<open>onBlur\<close>, \<^verbatim>\<open>onChange\<close> and \<^verbatim>\<open>onSubmit\<close> are optional.
\<close>

datatype target = Control "string option" | Form

datatype effect = CheckValidity target | OnBlur | OnChange | OnSubmit | PreventDefault

record props =
  has_onBlur :: bool
  has_onChange :: bool
  has_onSubmit :: bool

definition handleBlur :: "props \<Rightarrow> string option \<Rightarrow> gate \<Rightarrow> gate \<times> effect list" where
  "handleBlur p name g =
     (let key = (case name of None \<Rightarrow> ''undefined'' | Some n \<Rightarrow> n)
      in (g\<lparr>touched := touched_assign (touched g) key\<rparr>,
          CheckValidity (Control name) # (if has_onBlur p then [OnBlur] else [])))"

definition handleChange :: "props \<Rightarrow> string option \<Rightarrow> gate \<Rightarrow> gate \<times> effect list" where
  "handleChange p name g =
     (let key = (case name of None \<Rightarrow> [] | Some n \<Rightarrow> n)
      in (g,
          (if submitted g \<or> touched_truthy (touched g) key
           then [CheckValidity (Control name)] else [])
          @ (if has_onChange p then [OnChange] else [])))"

definition handleSubmit ::
  "props \<Rightarrow> bool \<Rightarrow> (target \<Rightarrow> bool) \<Rightarrow> gate \<Rightarrow> gate \<times> effect list" where
  "handleSubmit p skip registry g =
     (g\<lparr>submitted := True\<rparr>,
      if skip then (if has_onSubmit p then [OnSubmit] else [])
      else if registry Form then CheckValidity Form # (if has_onSubmit p then [OnSubmit] else [])
      else [CheckValidity Form, PreventDefault])"

section \<open>Dynamic list controller\<close>

text \<open>
  \<^verbatim>\<open>useFieldsetControl\<close> (lines 248 to 316) receives the options of the elements
  of a list fieldset. An option carries a name and, optionally, a value and an error
  of the element; their contents play no part in the controller.
\<close>

record 'v FieldsetOptions =
  opt_name :: string
  opt_value :: "'v option"
  opt_error :: "'v option"

text \<open>
  For a fieldset with a count, \<^verbatim>\<open>getFieldProps\<close> (lines 341 to 345) makes the
  options of the elements: the name of the fieldset followed by the position in
  brackets, and the element's part of the value and of the error, when there is one.
\<close>

definition indexed_name :: "string \<Rightarrow> nat \<Rightarrow> string" where
  "indexed_name name index = name @ ''['' @ number_toString index @ '']''"

definition optional_at :: "'v list option \<Rightarrow> nat \<Rightarrow> 'v option" where
  "optional_at xs index =
     (case xs of
        None \<Rightarrow> None
      | Some ys \<Rightarrow> if index < length ys then Some (ys ! index) else None)"

definition getFieldProps_array ::
  "string \<Rightarrow> nat \<Rightarrow> 'v list option \<Rightarrow> 'v list option \<Rightarrow> 'v FieldsetOptions list" where
  "getFieldProps_array name count val err =
     map (\<lambda>index. \<lparr>opt_name = indexed_name name index,
                    opt_value = optional_at val index,
                    opt_error = optional_at err index\<rparr>) [0..<count]"

text \<open>
  The name of the list is found by a \<^verbatim>\<open>reduce\<close> over the options, starting from
  the empty string (lines 257 to 267). Each option's name is cut before its last
  \<open>[\<close>; when it has none, \<^verbatim>\<open>lastIndexOf\<close> gives \<open>-1\<close> and the cut drops the last
  character. The callback throws when the accumulated name is truthy (not empty) and
  differs from the name just cut.
\<close>

datatype error = Inconsistent_name

definition option_parent :: "'v FieldsetOptions \<Rightarrow> string" where
  "option_parent option = slice (opt_name option) 0 (lastIndexOf (opt_name option) CHR ''['')"

fun reduce_names :: "string \<Rightarrow> 'v FieldsetOptions list \<Rightarrow> error + string" where
  "reduce_names result [] = Inr result"
| "reduce_names result (option # rest) =
     (if result \<noteq> [] \<and> result \<noteq> option_parent option then Inl Inconsistent_name
      else reduce_names (option_parent option) rest)"

definition useFieldsetControl_name :: "'v FieldsetOptions list \<Rightarrow> error + string" where
  "useFieldsetControl_name options = reduce_names [] options"

text \<open>
  The keys are numbers: the indices \<open>0, ..., n - 1\<close> at first (line 256), the clock's
  reading for an appended element (line 272). The clock is a parameter. The delete
  button of the element at \<open>index\<close> removes the key at that position (lines 286 to
  289). Each of the two click handlers updates the keys and then calls
  \<^verbatim>\<open>e.preventDefault()\<close> on the click (lines 273 and 290); it returns the new keys
  and that effect. The effect on the options' length (lines 305 to 313) keeps the keys
  when their number equals the length and replaces them by fresh indices otherwise.
\<close>

definition Array_keys :: "nat \<Rightarrow> nat list" where
  "Array_keys n = [0..<n]"

definition initial_keys :: "'v FieldsetOptions list \<Rightarrow> nat list" where
  "initial_keys options = Array_keys (length options)"

definition addButton_onClick :: "nat \<Rightarrow> nat list \<Rightarrow> nat list \<times> effect list" where
  "addButton_onClick now keys = (keys @ [now], [PreventDefault])"

definition deleteButton_onClick :: "nat \<Rightarrow> nat list \<Rightarrow> nat list \<times> effect list" where
  "deleteButton_onClick index keys =
     (take index keys @ drop (index + 1) keys, [PreventDefault])"

definition length_effect :: "nat \<Rightarrow> nat list \<Rightarrow> nat list" where
  "length_effect options_length keys =
     (if length keys = options_length then keys else Array_keys options_length)"

text \<open>
  Each key is rendered with the option stored at the position the key names, and
  only when there is none with a fresh option named by the list's name and the
  element's position (lines 294 to 300). The buttons carry what
  \<^verbatim>\<open>draftUpdate\<close> of the package \<^verbatim>\<open>form-validity\<close> makes of the list's name and
  the position; its arguments stand for it.
\<close>

datatype draft = DraftUpdate string "nat option"

record 'v entry =
  entry_key :: nat
  entry_options :: "'v FieldsetOptions"
  entry_deleteButton :: draft

definition render_entry :: "string \<Rightarrow> 'v FieldsetOptions list \<Rightarrow> nat \<times> nat \<Rightarrow> 'v entry" where
  "render_entry name options ki =
     \<lparr>entry_key = fst ki,
      entry_options =
        (if fst ki < length options then options ! fst ki
         else \<lparr>opt_name = indexed_name name (snd ki), opt_value = None, opt_error = None\<rparr>),
      entry_deleteButton = DraftUpdate name (Some (snd ki))\<rparr>"

definition useFieldsetControl_result ::
  "string \<Rightarrow> 'v FieldsetOptions list \<Rightarrow> nat list \<Rightarrow> 'v entry list" where
  "useFieldsetControl_result name options keys =
     map (render_entry name options) (zip keys [0..<length keys])"

definition useFieldsetControl ::
  "'v FieldsetOptions list \<Rightarrow> nat list \<Rightarrow> error + ('v entry list \<times> draft)" where
  "useFieldsetControl options keys =
     (case useFieldsetControl_name options of
        Inl e \<Rightarrow> Inl e
      | Inr name \<Rightarrow> Inr (useFieldsetControl_result name options keys, DraftUpdate name None))"




section \<open>Message synthesis\<close>

text \<open>
  The controls are the platform's. What the hooks use of one is its name, its
  validity state, its validation message and \<^verbatim>\<open>setCustomValidity\<close>. A control
  holds the constraints its current value violates, the platform's own message for
  them, and the custom message last set (empty for none). Its validity state reports
  the violated constraints and whether a custom message is set; its validation
  message is the custom message when one is set, and otherwise the platform's message
  when a constraint is violated and the empty string when none is.
\<close>

datatype constraint =
  BadInput | PatternMismatch | RangeOverflow | RangeUnderflow | StepMismatch
  | TooLong | TooShort | TypeMismatch | ValueMissing

record ValidityState =
  violated :: "constraint set"
  customError :: bool

record element =
  el_name :: string
  el_violated :: "constraint set"
  el_platformMessage :: string
  el_customMessage :: string

definition validity :: "element \<Rightarrow> ValidityState" where
  "validity e = \<lparr>violated = el_violated e, customError = (el_customMessage e \<noteq> [])\<rparr>"

definition valid :: "ValidityState \<Rightarrow> bool" where
  "valid v = (violated v = {} \<and> \<not> customError v)"

definition validationMessage :: "element \<Rightarrow> string" where
  "validationMessage e =
     (if el_customMessage e \<noteq> [] then el_customMessage e
      else if el_violated e = {} then []
      else el_platformMessage e)"

definition setCustomValidity :: "element \<Rightarrow> string \<Rightarrow> element" where
  "setCustomValidity e message = e\<lparr>el_customMessage := message\<rparr>"

text \<open>
  The error messages of a fieldset are a state of the hook: an object from keys to
  messages. \<^verbatim>\<open>setErrorMessage\<close> is given an updater (lines 190 to 192) that
  returns the object it received when the key already holds the message, and a copy
  with the key set otherwise. Returning the same object is no state update, so the
  two outcomes are kept apart.
\<close>

datatype 'a update = Kept | Replaced 'a

definition next_state :: "'a \<Rightarrow> 'a update \<Rightarrow> 'a" where
  "next_state s u = (case u of Kept \<Rightarrow> s | Replaced s' \<Rightarrow> s')"

definition errorMessage_updater ::
  "string \<Rightarrow> string \<Rightarrow> (string \<rightharpoonup> string) \<Rightarrow> (string \<rightharpoonup> string) update" where
  "errorMessage_updater key message error =
     (if error key = Some message then Kept else Replaced (error(key \<mapsto> message)))"

text \<open>
  \<^verbatim>\<open>onInvalid\<close> (lines 173 to 193). \<^verbatim>\<open>getFieldConfig\<close> and
  \<^verbatim>\<open>checkCustomValidity\<close> belong to the package \<^verbatim>\<open>form-validity\<close> and are
  parameters: \<open>config_of key\<close> is what \<^verbatim>\<open>getFieldConfig(fieldset[key])\<close> yields
  (\<open>None\<close> for a falsy result), and \<open>check\<close> maps a validity state and a
  configuration to a message or to null (\<open>None\<close>). The handler returns the control
  as it leaves it and what it asks of the error state.
\<close>

definition clear_sentinel :: "element \<Rightarrow> element" where
  "clear_sentinel e = (if validationMessage e = ''valid'' then setCustomValidity e [] else e)"

definition message_for :: "(ValidityState \<Rightarrow> 'c \<Rightarrow> string option) \<Rightarrow> 'c \<Rightarrow> element \<Rightarrow> string" where
  "message_for check config e =
     (case check (validity e) config of Some m \<Rightarrow> m | None \<Rightarrow> validationMessage e)"

definition onInvalid ::
  "(ValidityState \<Rightarrow> 'c \<Rightarrow> string option) \<Rightarrow> (string \<Rightarrow> 'c option) \<Rightarrow>
   element \<Rightarrow> (string \<rightharpoonup> string) \<Rightarrow> element \<times> (string \<rightharpoonup> string) update" where
  "onInvalid check config_of e error =
     (let key = getKey (el_name e)
      in case config_of key of
           None \<Rightarrow> (e, Kept)
         | Some config \<Rightarrow>
             (let e' = clear_sentinel e;
                  message = message_for check config e'
              in (e', errorMessage_updater key message error)))"

text \<open>
  Modelled from the spec: the registry's \<^verbatim>\<open>checkValidity\<close>, which is created by
  \<^verbatim>\<open>createConstraintRegistry\<close> of the package \<^verbatim>\<open>form-validity\<close> and is not among
  the sources. By section 4.4 of the spec, checking a single control triggers its
  validity evaluation, which invokes the message synthesis through the control's
  invalid notification, and returns the control's validity. The state is a control
  of a fieldset and the fieldset's error messages.
\<close>

definition checkValidity_control ::
  "(ValidityState \<Rightarrow> 'c \<Rightarrow> string option) \<Rightarrow> (string \<Rightarrow> 'c option) \<Rightarrow>
   element \<Rightarrow> (string \<rightharpoonup> string) \<Rightarrow> (element \<times> (string \<rightharpoonup> string)) \<times> bool" where
  "checkValidity_control check config_of e error =
     (let r = onInvalid check config_of e error
      in ((fst r, next_state error (snd r)), valid (validity (fst r))))"

text \<open>
  Modelled from the spec: the registry's \<^verbatim>\<open>checkValidity\<close> on a form (section
  4.4), which is not among the sources either. The controls are walked in document
  order, each is evaluated as a single control is, none is skipped after a failure,
  and the answer is true iff all are valid.
\<close>

fun checkValidity_form ::
  "(ValidityState \<Rightarrow> 'c \<Rightarrow> string option) \<Rightarrow> (string \<Rightarrow> 'c option) \<Rightarrow>
   element list \<Rightarrow> (string \<rightharpoonup> string) \<Rightarrow> (element list \<times> (string \<rightharpoonup> string)) \<times> bool" where
  "checkValidity_form check config_of [] error = (([], error), True)"
| "checkValidity_form check config_of (e # es) error =
     (let first = checkValidity_control check config_of e error;
          rest = checkValidity_form check config_of es (snd (fst first))
      in ((fst (fst first) # fst (fst rest), snd (fst rest)), snd first \<and> snd rest))"

text \<open>
  Two notions for stating what a check of a form leaves behind: the control after its
  notification, and the messages a walk over the controls hands to the error state
  (a later control's message for a key replaces an earlier one's).
\<close>

definition settle :: "(string \<Rightarrow> 'c option) \<Rightarrow> element \<Rightarrow> element" where
  "settle config_of e =
     (case config_of (getKey (el_name e)) of None \<Rightarrow> e | Some config \<Rightarrow> clear_sentinel e)"

fun messages_of ::
  "(ValidityState \<Rightarrow> 'c \<Rightarrow> string option) \<Rightarrow> (string \<Rightarrow> 'c option) \<Rightarrow>
   element list \<Rightarrow> (string \<rightharpoonup> string)" where
  "messages_of check config_of [] = Map.empty"
| "messages_of check config_of (e # es) =
     (case config_of (getKey (el_name e)) of
        None \<Rightarrow> messages_of check config_of es
      | Some config \<Rightarrow>
          [getKey (el_name e) \<mapsto> message_for check config (clear_sentinel e)]
            ++ messages_of check config_of es)"

section \<open>Facts about the string primitives\<close>

lemma lastIndexOf_absent: "c \<notin> set s \<Longrightarrow> lastIndexOf s c = - 1"
  by (induction s) (auto simp: Let_def)

lemma lastIndexOf_bounds: "- 1 \<le> lastIndexOf s c \<and> lastIndexOf s c < int (length s)"
  by (induction s) (auto simp: Let_def)

lemma lastIndexOf_last:
  "c \<notin> set k \<Longrightarrow> lastIndexOf (p @ c # k) c = int (length p)"
proof (induction p)
  case Nil
  then show ?case by (simp add: lastIndexOf_absent Let_def)
next
  case (Cons x p)
  then show ?case by (simp add: Let_def)
qed

lemma getKey_no_dot: "CHR ''.'' \<notin> set key \<Longrightarrow> getKey key = key"
  by (simp add: getKey_def slice_from_def relative_index_def lastIndexOf_absent)

lemma getKey_after_dot:
  assumes "CHR ''.'' \<notin> set key"
  shows "getKey (p @ CHR ''.'' # key) = key"
proof -
  have "lastIndexOf (p @ CHR ''.'' # key) CHR ''.'' + 1 = int (Suc (length p))"
    using assms by (simp add: lastIndexOf_last)
  then have "getKey (p @ CHR ''.'' # key) = drop (Suc (length p)) (p @ CHR ''.'' # key)"
    unfolding getKey_def slice_from_def relative_index_def
    by (simp del: of_nat_Suc)
  then show ?thesis by simp
qed

section \<open>Claims about the path resolver\<close>

text \<open>
  C4, as stated, for every parent address and every key: refuted at the key \<open>a.b\<close>
  under no parent, whose last segment is \<open>b\<close>.
\<close>

theorem getKey_roundtrip_counterexample:
  "getKey (getFieldProps_name None ''a.b'') = ''b'' \<and>
   getKey (getFieldProps_name None ''a.b'') \<noteq> ''a.b''"
  by (simp add: getKey_def getFieldProps_name_def slice_from_def relative_index_def Let_def)

text \<open>
  C4, amended: for every parent address (absent, empty or not) and every key that
  holds no dot, the last segment of the resolved name is the key.
\<close>

theorem getKey_roundtrip:
  "CHR ''.'' \<notin> set key \<Longrightarrow> getKey (getFieldProps_name parent key) = key"
proof (cases parent)
  case None
  assume "CHR ''.'' \<notin> set key"
  with None show ?thesis by (simp add: getFieldProps_name_def getKey_no_dot)
next
  case (Some p)
  assume k: "CHR ''.'' \<notin> set key"
  show ?thesis
  proof (cases "p = []")
    case True
    with Some k show ?thesis by (simp add: getFieldProps_name_def getKey_no_dot)
  next
    case False
    with Some getKey_after_dot [OF k, of p] show ?thesis
      by (simp add: getFieldProps_name_def)
  qed
qed

theorem getKey_roundtrip_witness:
  "CHR ''.'' \<notin> set ''street'' \<and>
   getKey (getFieldProps_name (Some ''address'') ''street'') = ''street'' \<and>
   getFieldProps_name (Some ''address'') ''street'' = ''address.street''"
  using getKey_roundtrip [of "''street''" "Some ''address''"]
  by (simp add: getFieldProps_name_def)

section \<open>Claims about the touch/submit gate\<close>

lemma handleBlur_touched:
  "n \<noteq> ''__proto__'' \<Longrightarrow> touched_truthy (touched (fst (handleBlur p (Some n) g))) n"
  by (simp add: handleBlur_def touched_truthy_def touched_assign_def)

lemma handleBlur_effects:
  "snd (handleBlur p name g) = CheckValidity (Control name) # (if has_onBlur p then [OnBlur] else [])"
  by (simp add: handleBlur_def)

lemma handleBlur_TouchedSet:
  "n \<noteq> ''__proto__'' \<Longrightarrow> TouchedSet (fst (handleBlur p (Some n) g)) = insert n (TouchedSet g)"
  by (auto simp: handleBlur_def TouchedSet_def touched_assign_def)

lemma handleChange_checks_iff:
  "CheckValidity (Control (Some n)) \<in> set (snd (handleChange p (Some n) g))
   \<longleftrightarrow> submitted g \<or> touched_truthy (touched g) n"
  by (simp add: handleChange_def)

lemma touched_truthy_ordinary:
  "n \<notin> set Object_prototype_keys \<Longrightarrow> touched_truthy (touched g) n \<longleftrightarrow> n \<in> TouchedSet g"
  by (auto simp: touched_truthy_def TouchedSet_def split: option.splits)

lemma handleChange_ordinary:
  "n \<notin> set Object_prototype_keys \<Longrightarrow>
   CheckValidity (Control (Some n)) \<in> set (snd (handleChange p (Some n) g))
   \<longleftrightarrow> submitted g \<or> n \<in> TouchedSet g"
  by (simp add: handleChange_checks_iff touched_truthy_ordinary)

text \<open>
  C1: a blur always records the name and checks the control, and a change on a
  control of an ordinary name is checked exactly when the form was submitted or the
  name is in the TouchedSet (the lemmas above). The claim speaks of every control,
  and there the code departs from it: on the pristine form, where nothing was blurred
  and nothing submitted, a change on the control named \<open>constructor\<close> is validated,
  because the lookup in the object finds the inherited property.
\<close>

theorem handleChange_inherited_name:
  "\<not> submitted gate_init \<and>
   ''constructor'' \<notin> TouchedSet gate_init \<and>
   handleChange p (Some ''constructor'') gate_init =
     (gate_init,
      CheckValidity (Control (Some ''constructor'')) # (if has_onChange p then [OnChange] else []))"
  by (simp add: handleChange_def gate_init_def TouchedSet_def touched_truthy_def
      Object_prototype_keys_def)

text \<open>
  C2: every submit sets the flag. With a submitter that is not exempt and a failing
  full-form check, the default action is prevented and the caller's \<^verbatim>\<open>onSubmit\<close>
  is not called. Otherwise nothing is prevented and \<^verbatim>\<open>onSubmit\<close> (when given) is
  called; for an exempt submitter the registry is not consulted at all.
\<close>

theorem handleSubmit_cases:
  "submitted (fst (handleSubmit p skip registry g)) \<and>
   (\<not> skip \<and> \<not> registry Form \<longrightarrow>
      snd (handleSubmit p skip registry g) = [CheckValidity Form, PreventDefault]) \<and>
   (\<not> skip \<and> registry Form \<longrightarrow>
      snd (handleSubmit p skip registry g) =
        CheckValidity Form # (if has_onSubmit p then [OnSubmit] else [])) \<and>
   (skip \<longrightarrow>
      snd (handleSubmit p skip registry g) = (if has_onSubmit p then [OnSubmit] else []))"
  by (simp add: handleSubmit_def)

theorem handleSubmit_cases_witness:
  "submitted (fst (handleSubmit \<lparr>has_onBlur = False, has_onChange = False, has_onSubmit = True\<rparr>
      False (\<lambda>t. False) gate_init)) \<and>
   snd (handleSubmit \<lparr>has_onBlur = False, has_onChange = False, has_onSubmit = True\<rparr>
      False (\<lambda>t. False) gate_init) = [CheckValidity Form, PreventDefault] \<and>
   snd (handleSubmit \<lparr>has_onBlur = False, has_onChange = False, has_onSubmit = True\<rparr>
      False (\<lambda>t. True) gate_init) = [CheckValidity Form, OnSubmit] \<and>
   snd (handleSubmit \<lparr>has_onBlur = False, has_onChange = False, has_onSubmit = True\<rparr>
      True (\<lambda>t. False) gate_init) = [OnSubmit]"
  using
    handleSubmit_cases [of "\<lparr>has_onBlur = False, has_onChange = False, has_onSubmit = True\<rparr>"
      False "\<lambda>t. False" gate_init]
    handleSubmit_cases [of "\<lparr>has_onBlur = False, has_onChange = False, has_onSubmit = True\<rparr>"
      False "\<lambda>t. True" gate_init]
    handleSubmit_cases [of "\<lparr>has_onBlur = False, has_onChange = False, has_onSubmit = True\<rparr>"
      True "\<lambda>t. False" gate_init]
  by simp

section \<open>Claims about the list controller\<close>

lemma length_effect_length: "length (length_effect n keys) = n"
  by (simp add: length_effect_def Array_keys_def)

lemma length_effect_fixed: "length_effect n keys = keys \<longleftrightarrow> length keys = n"
  by (auto simp: length_effect_def Array_keys_def)

text \<open>
  C5, as stated: when the length goes from \<open>N\<close> to \<open>N + 1\<close>, the \<open>N\<close> prior keys
  keep their identity and one key is appended. Refuted on keys every controller can
  reach: three elements at first, the first one deleted, the options then shortened to
  two and later grown to three. The keys \<open>1, 2\<close> are replaced by \<open>0, 1, 2\<close>.
\<close>

theorem length_effect_counterexample:
  "deleteButton_onClick 0 (Array_keys 3) = ([1, 2], [PreventDefault]) \<and>
   length_effect 2 [1, 2] = [1, 2] \<and>
   length_effect 3 [1, 2] = [0, 1, 2] \<and>
   take 2 (length_effect 3 [1, 2]) \<noteq> [1, 2]"
  by (simp add: deleteButton_onClick_def length_effect_def Array_keys_def upt_rec)

text \<open>
  C5, amended: the keys are kept as they are when their number equals the new length
  and are otherwise replaced by the indices \<open>0, ..., n - 1\<close>, so their number always
  equals the length afterwards. When the prior keys are still the initial numbering
  \<open>0, ..., N - 1\<close>, growth to \<open>N + 1\<close> appends exactly the key \<open>N\<close> and shrinking to
  \<open>M\<close> drops the trailing keys only. Only the two lengths are compared.
\<close>

theorem length_effect_reconciles:
  "length (length_effect n keys) = n \<and>
   length_effect n keys = (if length keys = n then keys else [0..<n]) \<and>
   length_effect (N + 1) (Array_keys N) = Array_keys N @ [N] \<and>
   (M \<le> N \<longrightarrow> length_effect M (Array_keys N) = take M (Array_keys N)) \<and>
   (length keys = length keys' \<longrightarrow>
      (length_effect n keys = keys \<longleftrightarrow> length_effect n keys' = keys'))"
proof -
  have "M \<le> N \<Longrightarrow> take M [0..<N] = [0..<M]"
    by (simp add: take_upt)
  then show ?thesis
    by (simp add: length_effect_length length_effect_fixed)
      (simp add: length_effect_def Array_keys_def)
qed

theorem length_effect_reconciles_witness:
  "length_effect 3 (Array_keys 2) = [0, 1, 2] \<and>
   length_effect 1 (Array_keys 2) = [0] \<and>
   length_effect 2 [4, 7] = [4, 7] \<and>
   length_effect 2 [5, 6] = [5, 6]"
  using length_effect_reconciles [of 2 "[4, 7]" 2 1 "[5, 6]"]
    length_effect_reconciles [of 2 "[4, 7]" 2 0 "[5, 6]"]
  by (simp add: Array_keys_def upt_rec)

lemma reduce_names_agree:
  "\<forall>x\<in>set os. option_parent x = p \<Longrightarrow> r = [] \<or> r = p \<Longrightarrow>
   reduce_names r os = Inr (if os = [] then r else p)"
  by (induction os arbitrary: r) auto

lemma reduce_names_differ:
  "r \<noteq> [] \<Longrightarrow> \<exists>x\<in>set os. option_parent x \<noteq> r \<Longrightarrow>
   \<forall>x\<in>set os. option_parent x \<noteq> [] \<Longrightarrow> reduce_names r os = Inl Inconsistent_name"
proof (induction os arbitrary: r)
  case Nil
  then show ?case by simp
next
  case (Cons x os)
  show ?case
  proof (cases "option_parent x = r")
    case True
    with Cons.prems have "\<exists>y\<in>set os. option_parent y \<noteq> r" by auto
    with Cons.IH [of r] Cons.prems True show ?thesis by simp
  next
    case False
    with Cons.prems show ?thesis by simp
  qed
qed

lemma reduce_names_throws_iff:
  "reduce_names r os = Inl Inconsistent_name \<longleftrightarrow>
     (\<exists>i<length os. (r # map option_parent os) ! i \<noteq> [] \<and>
        (r # map option_parent os) ! i \<noteq> option_parent (os ! i))"
proof (induction os arbitrary: r)
  case Nil
  show ?case by simp
next
  case (Cons x os)
  have split: "(\<exists>i<Suc (length os). P i) \<longleftrightarrow> P 0 \<or> (\<exists>j<length os. P (Suc j))" for P
    by (metis less_Suc_eq_0_disj)
  show ?case
    by (simp add: split Cons.IH [of "option_parent x"])
qed

lemma useFieldsetControl_name_agree:
  "\<forall>x\<in>set os. option_parent x = p \<Longrightarrow>
   useFieldsetControl_name os = Inr (if os = [] then [] else p)"
  unfolding useFieldsetControl_name_def by (rule reduce_names_agree) simp_all

lemma useFieldsetControl_name_differ:
  assumes a: "\<forall>x\<in>set os. option_parent x \<noteq> []"
    and b: "\<exists>x\<in>set os. \<exists>y\<in>set os. option_parent x \<noteq> option_parent y"
  shows "useFieldsetControl_name os = Inl Inconsistent_name"
proof -
  from b obtain z zs where os: "os = z # zs" by (cases os) auto
  from b os have "\<exists>y\<in>set zs. option_parent y \<noteq> option_parent z"
    by (metis set_ConsD)
  moreover from a os have "option_parent z \<noteq> []" "\<forall>y\<in>set zs. option_parent y \<noteq> []"
    by auto
  ultimately have "reduce_names (option_parent z) zs = Inl Inconsistent_name"
    by (intro reduce_names_differ)
  with os show ?thesis by (simp add: useFieldsetControl_name_def)
qed

text \<open>
  C7: options that agree on the parent address raise no error, and options whose
  parent addresses are all non-empty and do not all agree make the setup throw (the
  two lemmas above); the setup throws exactly when some option's parent address
  differs from a non-empty one just before it. The claim asks for an error whenever
  the options do not all share the parent address, and there the code departs from
  it: of the options named \<open>[0]\<close> and \<open>a[1]\<close> the first has the empty string for
  its parent and the second has \<open>a\<close>; the empty parent is taken for the start of
  the reduction, and the list is named \<open>a\<close> with no error. The same two options in
  the other order do throw.
\<close>

theorem useFieldsetControl_name_empty_parent:
  "option_parent \<lparr>opt_name = ''[0]'', opt_value = None :: unit option, opt_error = None\<rparr> = [] \<and>
   option_parent \<lparr>opt_name = ''a[1]'', opt_value = None :: unit option, opt_error = None\<rparr> = ''a'' \<and>
   useFieldsetControl_name
     [\<lparr>opt_name = ''[0]'', opt_value = None :: unit option, opt_error = None\<rparr>,
      \<lparr>opt_name = ''a[1]'', opt_value = None, opt_error = None\<rparr>] = Inr ''a'' \<and>
   useFieldsetControl
     [\<lparr>opt_name = ''[0]'', opt_value = None :: unit option, opt_error = None\<rparr>,
      \<lparr>opt_name = ''a[1]'', opt_value = None, opt_error = None\<rparr>] [0, 1]
     = Inr (useFieldsetControl_result ''a''
         [\<lparr>opt_name = ''[0]'', opt_value = None :: unit option, opt_error = None\<rparr>,
          \<lparr>opt_name = ''a[1]'', opt_value = None, opt_error = None\<rparr>] [0, 1],
        DraftUpdate ''a'' None) \<and>
   useFieldsetControl_name
     [\<lparr>opt_name = ''a[1]'', opt_value = None :: unit option, opt_error = None\<rparr>,
      \<lparr>opt_name = ''[0]'', opt_value = None, opt_error = None\<rparr>] = Inl Inconsistent_name"
  by (simp add: useFieldsetControl_def useFieldsetControl_name_def option_parent_def slice_def
      relative_index_def Let_def)




lemma number_toString_digit: "n < 10 \<Longrightarrow> number_toString n = [digit_char n]"
  by (simp add: number_toString.simps)

text \<open>
  C6: the scenario, run on the code. The list \<open>list\<close> starts with two elements, so
  with the keys \<open>0, 1\<close>. Appending at the clock reading \<open>t\<close> gives three keys and
  the new element the name \<open>list[2]\<close>. Deleting the element at position \<open>0\<close> leaves
  the keys \<open>1, t\<close>: the key of the survivor is still \<open>1\<close>, but it is rendered
  with the option stored at position \<open>1\<close>, whose name is \<open>list[1]\<close>, not
  \<open>list[0]\<close>, and the appended element is named \<open>list[1]\<close> as well.
\<close>

theorem append_remove_scenario:
  "getFieldProps_array ''list'' 2 (Some [a, b]) None =
     [\<lparr>opt_name = ''list[0]'', opt_value = Some a, opt_error = None\<rparr>,
      \<lparr>opt_name = ''list[1]'', opt_value = Some b, opt_error = None\<rparr>] \<and>
   useFieldsetControl_name (getFieldProps_array ''list'' 2 (Some [a, b]) None) = Inr ''list'' \<and>
   initial_keys (getFieldProps_array ''list'' 2 (Some [a, b]) None) = [0, 1] \<and>
   addButton_onClick 1667433600000 [0, 1] = ([0, 1, 1667433600000], [PreventDefault]) \<and>
   map (\<lambda>e. (entry_key e, opt_name (entry_options e)))
     (useFieldsetControl_result ''list'' (getFieldProps_array ''list'' 2 (Some [a, b]) None)
       [0, 1, 1667433600000])
     = [(0, ''list[0]''), (1, ''list[1]''), (1667433600000, ''list[2]'')] \<and>
   deleteButton_onClick 0 [0, 1, 1667433600000] = ([1, 1667433600000], [PreventDefault]) \<and>
   map (\<lambda>e. (entry_key e, opt_name (entry_options e)))
     (useFieldsetControl_result ''list'' (getFieldProps_array ''list'' 2 (Some [a, b]) None)
       [1, 1667433600000])
     = [(1, ''list[1]''), (1667433600000, ''list[1]'')]"
proof -
  have options: "getFieldProps_array ''list'' 2 (Some [a, b]) None =
     [\<lparr>opt_name = ''list[0]'', opt_value = Some a, opt_error = None\<rparr>,
      \<lparr>opt_name = ''list[1]'', opt_value = Some b, opt_error = None\<rparr>]"
    by (simp add: getFieldProps_array_def indexed_name_def optional_at_def upt_rec
        number_toString_digit digit_char_def)
  show ?thesis
    unfolding options
    by (simp add: useFieldsetControl_name_def option_parent_def slice_def relative_index_def
        Let_def initial_keys_def Array_keys_def addButton_onClick_def deleteButton_onClick_def
        useFieldsetControl_result_def render_entry_def indexed_name_def upt_rec
        number_toString_digit digit_char_def)
qed

section \<open>Claims about the message synthesis\<close>

lemma clear_sentinel_name: "el_name (clear_sentinel e) = el_name e"
  by (simp add: clear_sentinel_def setCustomValidity_def)

lemma clear_sentinel_twice: "clear_sentinel (clear_sentinel e) = clear_sentinel e"
  by (simp add: clear_sentinel_def setCustomValidity_def validationMessage_def)

text \<open>
  C8, as stated, for every invalid notification: refuted by a control whose key has
  no configuration. The fieldset has the one key \<open>a.b\<close>; the control's name is
  \<open>a.b\<close>, its key comes back as \<open>b\<close>, no configuration is found, and the handler
  returns with the custom message \<open>valid\<close> still in place.
\<close>

theorem onInvalid_clears_sentinel_counterexample:
  "getKey ''a.b'' = ''b'' \<and>
   validationMessage
     \<lparr>el_name = ''a.b'', el_violated = {}, el_platformMessage = [],
      el_customMessage = ''valid''\<rparr> = ''valid'' \<and>
   onInvalid (\<lambda>v c. None) (\<lambda>k. if k = ''a.b'' then Some () else None)
     \<lparr>el_name = ''a.b'', el_violated = {}, el_platformMessage = [],
      el_customMessage = ''valid''\<rparr> Map.empty
     = (\<lparr>el_name = ''a.b'', el_violated = {}, el_platformMessage = [],
         el_customMessage = ''valid''\<rparr>, Kept) \<and>
   el_customMessage (fst (onInvalid (\<lambda>v c. None) (\<lambda>k. if k = ''a.b'' then Some () else None)
     \<lparr>el_name = ''a.b'', el_violated = {}, el_platformMessage = [],
      el_customMessage = ''valid''\<rparr> Map.empty)) \<noteq> []"
proof -
  have key: "getKey ''a.b'' = ''b''"
    by (simp add: getKey_def slice_from_def relative_index_def Let_def)
  show ?thesis
    by (simp add: key onInvalid_def validationMessage_def)
qed

text \<open>
  C8, amended: during every invalid notification of a control whose key has a
  configuration, if the control's validation message is \<open>valid\<close>, the custom
  message is empty afterwards, and the message handed to the error state is computed
  from the control with the custom message cleared: from the violated constraints and
  the platform's message alone, whatever the custom message was. For a control whose
  key has no configuration the handler returns at once: the control is left as it is
  and the error state is not asked for anything.
\<close>

theorem onInvalid_clears_sentinel:
  "(config_of (getKey (el_name e)) = Some config \<and> validationMessage e = ''valid'' \<longrightarrow>
      el_customMessage (fst (onInvalid check config_of e error)) = [] \<and>
      snd (onInvalid check config_of e error) =
        errorMessage_updater (getKey (el_name e))
          (message_for check config (setCustomValidity e [])) error \<and>
      message_for check config (setCustomValidity e []) =
        (case check \<lparr>violated = el_violated e, customError = False\<rparr> config of
           Some m \<Rightarrow> m
         | None \<Rightarrow> if el_violated e = {} then [] else el_platformMessage e)) \<and>
   (config_of (getKey (el_name e)) = None \<longrightarrow>
      onInvalid check config_of e error = (e, Kept))"
  by (simp add: onInvalid_def clear_sentinel_def Let_def setCustomValidity_def message_for_def
      validity_def validationMessage_def split: option.splits)

theorem onInvalid_clears_sentinel_witness:
  "validationMessage
     \<lparr>el_name = ''user.email'', el_violated = {ValueMissing},
      el_platformMessage = ''Please fill out this field.'', el_customMessage = ''valid''\<rparr>
     = ''valid'' \<and>
   el_customMessage (fst (onInvalid (\<lambda>v c. None)
     (\<lambda>k. if k = ''email'' then Some () else None)
     \<lparr>el_name = ''user.email'', el_violated = {ValueMissing},
      el_platformMessage = ''Please fill out this field.'', el_customMessage = ''valid''\<rparr>
     Map.empty)) = [] \<and>
   message_for (\<lambda>v c. None) ()
     (setCustomValidity
       \<lparr>el_name = ''user.email'', el_violated = {ValueMissing},
        el_platformMessage = ''Please fill out this field.'', el_customMessage = ''valid''\<rparr> [])
     = ''Please fill out this field.'' \<and>
   onInvalid (\<lambda>v c. None) (\<lambda>k. if k = ''email'' then Some () else None)
     \<lparr>el_name = ''user.phone'', el_violated = {ValueMissing},
      el_platformMessage = ''Please fill out this field.'', el_customMessage = ''valid''\<rparr>
     Map.empty
     = (\<lparr>el_name = ''user.phone'', el_violated = {ValueMissing},
         el_platformMessage = ''Please fill out this field.'', el_customMessage = ''valid''\<rparr>,
        Kept)"
proof -
  let ?e = "\<lparr>el_name = ''user.email'', el_violated = {ValueMissing},
      el_platformMessage = ''Please fill out this field.'', el_customMessage = ''valid''\<rparr>"
  let ?f = "\<lparr>el_name = ''user.phone'', el_violated = {ValueMissing},
      el_platformMessage = ''Please fill out this field.'', el_customMessage = ''valid''\<rparr>"
  let ?config_of = "\<lambda>k. if k = ''email'' then Some () else None"
  let ?check = "\<lambda>(v :: ValidityState) (c :: unit). None :: string option"
  have key: "getKey ''user.email'' = ''email''" and other: "getKey ''user.phone'' = ''phone''"
    by (simp_all add: getKey_def slice_from_def relative_index_def Let_def)
  have config: "?config_of (getKey (el_name ?e)) = Some ()"
    by (simp add: key)
  have none: "?config_of (getKey (el_name ?f)) = None"
    by (simp add: other)
  have sentinel: "validationMessage ?e = ''valid''"
    by (simp add: validationMessage_def)
  from onInvalid_clears_sentinel [of ?config_of ?e "()" ?check Map.empty] config sentinel
  have first: "el_customMessage (fst (onInvalid ?check ?config_of ?e Map.empty)) = [] \<and>
      message_for ?check () (setCustomValidity ?e []) = ''Please fill out this field.''"
    by simp
  from onInvalid_clears_sentinel [of ?config_of ?f "()" ?check Map.empty] none
  have second: "onInvalid ?check ?config_of ?f Map.empty = (?f, Kept)"
    by blast
  from first second sentinel show ?thesis by simp
qed

lemma next_state_updater:
  "next_state error (errorMessage_updater key message error) = error(key \<mapsto> message)"
  by (auto simp: next_state_def errorMessage_updater_def)

lemma settle_twice: "settle config_of (settle config_of e) = settle config_of e"
  by (simp add: settle_def clear_sentinel_name clear_sentinel_twice split: option.splits)

lemma settle_name: "el_name (settle config_of e) = el_name e"
  by (simp add: settle_def clear_sentinel_name split: option.splits)

lemma onInvalid_fst: "fst (onInvalid check config_of e error) = settle config_of e"
  by (simp add: onInvalid_def settle_def Let_def split: option.splits)

lemma onInvalid_next:
  "next_state error (snd (onInvalid check config_of e error)) =
     error ++ messages_of check config_of [e]"
  by (simp add: onInvalid_def Let_def next_state_updater split: option.splits)
    (simp add: next_state_def)

lemma messages_of_settle:
  "messages_of check config_of (map (settle config_of) es) = messages_of check config_of es"
proof (induction es)
  case Nil
  show ?case by simp
next
  case (Cons e es)
  show ?case
  proof (cases "config_of (getKey (el_name e))")
    case None
    with Cons show ?thesis by (simp add: settle_name)
  next
    case (Some config)
    then have "settle config_of e = clear_sentinel e" by (simp add: settle_def)
    with Some Cons show ?thesis
      by (simp add: clear_sentinel_name clear_sentinel_twice)
  qed
qed

lemma checkValidity_form_result:
  "checkValidity_form check config_of es error =
     ((map (settle config_of) es, error ++ messages_of check config_of es),
      list_all (\<lambda>e. valid (validity (settle config_of e))) es)"
proof (induction es arbitrary: error)
  case Nil
  show ?case by simp
next
  case (Cons e es)
  have "(error ++ messages_of check config_of [e]) ++ messages_of check config_of es =
      error ++ messages_of check config_of (e # es)"
    by (simp split: option.splits)
  with Cons [of "error ++ messages_of check config_of [e]"] show ?case
    by (simp add: checkValidity_control_def Let_def onInvalid_fst onInvalid_next
        del: messages_of.simps)
qed

lemma map_add_twice: "(m ++ f) ++ f = m ++ (f :: 'a \<rightharpoonup> 'b)"
  by (rule ext) (simp add: map_add_def split: option.splits)

lemma checkValidity_control_result:
  "checkValidity_control check config_of e error =
     ((settle config_of e, error ++ messages_of check config_of [e]),
      valid (validity (settle config_of e)))"
  by (simp add: checkValidity_control_def Let_def onInvalid_fst onInvalid_next
      del: messages_of.simps)

text \<open>
  C9: a check of the form, run again on the controls and the error messages the
  first run left, with no value changed in between, returns the same answer and
  leaves the same controls and the same error messages; the messages synthesized
  for the controls are the same both times. The same holds for the check of a single
  control.
\<close>

theorem checkValidity_twice:
  "checkValidity_form check config_of
     (fst (fst (checkValidity_form check config_of es error)))
     (snd (fst (checkValidity_form check config_of es error)))
     = checkValidity_form check config_of es error \<and>
   messages_of check config_of (fst (fst (checkValidity_form check config_of es error)))
     = messages_of check config_of es \<and>
   checkValidity_control check config_of
     (fst (fst (checkValidity_control check config_of e error)))
     (snd (fst (checkValidity_control check config_of e error)))
     = checkValidity_control check config_of e error"
proof -
  have again: "messages_of check config_of [settle config_of e] = messages_of check config_of [e]"
    using messages_of_settle [of check config_of "[e]"] by simp
  have "map (settle config_of) (map (settle config_of) es) = map (settle config_of) es"
    by (simp add: settle_twice)
  then have form: "checkValidity_form check config_of (map (settle config_of) es)
      (error ++ messages_of check config_of es) = checkValidity_form check config_of es error"
    by (simp add: checkValidity_form_result messages_of_settle map_add_twice settle_twice
        list_all_iff)
  have control: "checkValidity_control check config_of (settle config_of e)
      (error ++ messages_of check config_of [e]) = checkValidity_control check config_of e error"
    by (simp add: checkValidity_control_result again map_add_twice settle_twice
        del: messages_of.simps)
  from form control show ?thesis
    by (simp add: checkValidity_form_result checkValidity_control_result messages_of_settle
        del: messages_of.simps)
qed

text \<open>
  C10: an invalid notification of a control leaves the message of every key other
  than the control's own as it was. When the message synthesized equals the one
  stored under the key, the updater returns the object it was given (no update of the
  state); otherwise it returns a copy that differs in that key alone.
\<close>

theorem onInvalid_frame:
  "(k \<noteq> getKey (el_name e) \<longrightarrow>
      next_state error (snd (onInvalid check config_of e error)) k = error k) \<and>
   (config_of (getKey (el_name e)) = Some config \<and>
    error (getKey (el_name e)) = Some (message_for check config (clear_sentinel e)) \<longrightarrow>
      snd (onInvalid check config_of e error) = Kept \<and>
      next_state error (snd (onInvalid check config_of e error)) = error) \<and>
   (config_of (getKey (el_name e)) = Some config \<and>
    error (getKey (el_name e)) \<noteq> Some (message_for check config (clear_sentinel e)) \<longrightarrow>
      snd (onInvalid check config_of e error) =
        Replaced (error(getKey (el_name e) \<mapsto> message_for check config (clear_sentinel e))))"
  by (simp add: onInvalid_def Let_def errorMessage_updater_def next_state_def
      split: option.splits)

theorem onInvalid_frame_witness:
  "next_state [''email'' \<mapsto> ''Please fill out this field.'', ''name'' \<mapsto> ''Too short'']
     (snd (onInvalid (\<lambda>v c. None) (\<lambda>k. if k = ''email'' then Some () else None)
       \<lparr>el_name = ''user.email'', el_violated = {ValueMissing},
        el_platformMessage = ''Please fill out this field.'', el_customMessage = []\<rparr>
       [''email'' \<mapsto> ''Please fill out this field.'', ''name'' \<mapsto> ''Too short''])) ''name''
     = Some ''Too short'' \<and>
   snd (onInvalid (\<lambda>v c. None) (\<lambda>k. if k = ''email'' then Some () else None)
       \<lparr>el_name = ''user.email'', el_violated = {ValueMissing},
        el_platformMessage = ''Please fill out this field.'', el_customMessage = []\<rparr>
       [''email'' \<mapsto> ''Please fill out this field.'', ''name'' \<mapsto> ''Too short'']) = Kept \<and>
   snd (onInvalid (\<lambda>v c. None) (\<lambda>k. if k = ''email'' then Some () else None)
       \<lparr>el_name = ''user.email'', el_violated = {ValueMissing},
        el_platformMessage = ''Please fill out this field.'', el_customMessage = []\<rparr>
       [''email'' \<mapsto> [], ''name'' \<mapsto> ''Too short''])
     = Replaced [''email'' \<mapsto> ''Please fill out this field.'', ''name'' \<mapsto> ''Too short'']"
proof -
  let ?e = "\<lparr>el_name = ''user.email'', el_violated = {ValueMissing},
      el_platformMessage = ''Please fill out this field.'', el_customMessage = []\<rparr>"
  let ?config_of = "\<lambda>k. if k = ''email'' then Some () else None"
  let ?check = "\<lambda>(v :: ValidityState) (c :: unit). None :: string option"
  let ?same = "[''email'' \<mapsto> ''Please fill out this field.'', ''name'' \<mapsto> ''Too short'']"
  let ?other = "[''email'' \<mapsto> [], ''name'' \<mapsto> ''Too short'']"
  have key: "getKey ''user.email'' = ''email''"
    by (simp add: getKey_def slice_from_def relative_index_def Let_def)
  have message: "message_for ?check () (clear_sentinel ?e) = ''Please fill out this field.''"
    by (simp add: message_for_def clear_sentinel_def validationMessage_def)
  have update: "?other(''email'' \<mapsto> ''Please fill out this field.'') = ?same"
    by (rule ext) simp
  from onInvalid_frame [of "''name''" ?e ?same ?check ?config_of "()"]
    onInvalid_frame [of "''name''" ?e ?other ?check ?config_of "()"]
  show ?thesis
    by (simp add: key message update next_state_def)
qed

end
